theory Spec2Isabelle
  imports Complex_Main
begin

section \<open>RFM customer segmentation: knee selection and joint clustering\<close>

text \<open>
  The development follows \<^verbatim>\<open>rfm.py\<close>. Python floats are modelled as the real
  numbers (no rounding, no infinities, no NaN), Python integers as \<open>int\<close>. Every
  \<^verbatim>\<open>raise\<close> of the interpreter or of a library call is a value \<open>Inl e\<close> of the
  result type \<open>error + 'a\<close>.
\<close>

datatype error = KeyError | IndexError | ZeroDivisionError | ValueError

subsection \<open>The knee selector: \<^verbatim>\<open>get_numero_otimo_clusters\<close>\<close>

text \<open>
  \<^verbatim>\<open>np.argmax\<close> scans the sequence once and keeps the index of the first entry that is
  strictly greater than everything before it; on an empty sequence it raises
  \<^verbatim>\<open>ValueError\<close>.
\<close>

fun argmax_scan :: "real list \<Rightarrow> nat \<Rightarrow> nat \<Rightarrow> real \<Rightarrow> nat" where
  "argmax_scan [] i best_i best = best_i"
| "argmax_scan (x # xs) i best_i best =
     (if best < x then argmax_scan xs (Suc i) i x
      else argmax_scan xs (Suc i) best_i best)"

definition np_argmax :: "real list \<Rightarrow> error + nat" where
  "np_argmax xs =
     (case xs of [] \<Rightarrow> Inl ValueError | x # rest \<Rightarrow> Inr (argmax_scan rest 1 0 x))"

text \<open>
  The body of the \<^verbatim>\<open>for i, y0 in enumerate(wcss)\<close> loop: one distance is appended per
  iteration, and the float division raises \<^verbatim>\<open>ZeroDivisionError\<close> when the denominator
  is zero.
\<close>

fun distancias_loop ::
  "int \<Rightarrow> int \<Rightarrow> real \<Rightarrow> int \<Rightarrow> real \<Rightarrow> (nat \<times> real) list \<Rightarrow> real list \<Rightarrow> error + real list"
where
  "distancias_loop k_min x1 y1 x2 y2 [] distancias = Inr distancias"
| "distancias_loop k_min x1 y1 x2 y2 ((i, y0) # rest) distancias =
     (let x0 = k_min + int i;
          numerador = \<bar>(y2 - y1) * real_of_int x0 - real_of_int (x2 - x1) * y0
                        + real_of_int x2 * y1 - y2 * real_of_int x1\<bar>;
          denominador = sqrt ((y2 - y1)\<^sup>2 + (real_of_int (x2 - x1))\<^sup>2)
      in if denominador = 0 then Inl ZeroDivisionError
         else distancias_loop k_min x1 y1 x2 y2 rest (distancias @ [numerador / denominador]))"

text \<open>
  \<^verbatim>\<open>wcss[0]\<close> raises \<^verbatim>\<open>IndexError\<close> on an empty list; \<^verbatim>\<open>wcss[-1]\<close> is the last
  entry. The function has no other check of its arguments.
\<close>

definition get_numero_otimo_clusters :: "real list \<Rightarrow> int \<Rightarrow> int \<Rightarrow> error + int" where
  "get_numero_otimo_clusters wcss k_min k_max =
     (if wcss = [] then Inl IndexError
      else
        let x1 = k_min; y1 = hd wcss;
            x2 = k_max; y2 = last wcss
        in case distancias_loop k_min x1 y1 x2 y2 (enumerate 0 wcss) [] of
             Inl e \<Rightarrow> Inl e
           | Inr distancias \<Rightarrow>
               (case np_argmax distancias of
                  Inl e \<Rightarrow> Inl e
                | Inr j \<Rightarrow> Inr (k_min + int j)))"

text \<open>
  The distance of the specification, written from its formula: the point \<open>(x0, y0)\<close>
  against the chord from \<open>(x1, y1)\<close> to \<open>(x2, y2)\<close>.
\<close>

definition spec_distance :: "real \<Rightarrow> real \<Rightarrow> real \<Rightarrow> real \<Rightarrow> real \<Rightarrow> real \<Rightarrow> real" where
  "spec_distance x1 y1 x2 y2 x0 y0 =
     \<bar>(y2 - y1) * x0 - (x2 - x1) * y0 + x2 * y1 - y2 * x1\<bar>
       / sqrt ((y2 - y1)\<^sup>2 + (x2 - x1)\<^sup>2)"

text \<open>The distance of the point of candidate \<open>k\<close> on the curve of \<open>wcss\<close>.\<close>

definition knee_distance :: "real list \<Rightarrow> int \<Rightarrow> int \<Rightarrow> int \<Rightarrow> real" where
  "knee_distance wcss k_min k_max k =
     spec_distance (real_of_int k_min) (hd wcss) (real_of_int k_max) (last wcss)
       (real_of_int k) (wcss ! nat (k - k_min))"

subsection \<open>Tables\<close>

text \<open>
  A pandas table is its ordered column labels and its rows. The rows are typed by the
  columns the code reads or writes; a table may carry further labels in \<open>columns\<close>,
  whose cells the code never reads. Numeric cells are reals and no cell is missing, as in
  the tables \<^verbatim>\<open>build_rfm_table\<close> returns.
\<close>

record 'r frame =
  columns :: "string list"
  rows :: "'r list"

text \<open>The RFM table, and the table with the three features added to it.\<close>

record 'c rfm_row =
  Cliente :: 'c
  Recencia :: real
  Frequencia :: real
  Receita :: real

record 'c enriched_row = "'c rfm_row" +
  R_inv :: real
  F_log :: real
  M_log :: real

text \<open>The per-cluster profile: the aggregates, then the rank and the share.\<close>

record agg_row =
  ClusterId :: int
  Clientes :: nat
  Recencia_media :: real
  Recencia_mediana :: real
  Frequencia_media :: real
  Frequencia_mediana :: real
  Receita_media :: real
  Receita_mediana :: real
  ScoreComposto_medio :: real

record prof_row = agg_row +
  RankQualidade :: int
  PctBase :: real

text \<open>
  The per-customer table inside \<^verbatim>\<open>cluster_rfm_joint\<close>: with the cluster and the
  score, then with the rank joined in (a left join leaves a missing rank where no profile
  row matches), and the table that is returned.
\<close>

record 'c clustered_row = "'c enriched_row" +
  ClusterId :: int
  ScoreComposto :: real

record 'c merged_row = "'c clustered_row" +
  RankQualidade :: "int option"

record 'c customer_row =
  Cliente :: 'c
  Recencia :: real
  Frequencia :: real
  Receita :: real
  ClusterId :: int
  RankQualidade :: "int option"
  ScoreComposto :: real

text \<open>
  \<^verbatim>\<open>df[c] = values\<close> keeps the position of an existing label and appends a new one.
\<close>

definition set_column :: "string \<Rightarrow> string list \<Rightarrow> string list" where
  "set_column c cols = (if c \<in> set cols then cols else cols @ [c])"

subsection \<open>The feature builder: \<^verbatim>\<open>build_rfm_features\<close>\<close>

text \<open>
  \<^verbatim>\<open>np.log1p\<close> on the reals. (For an argument of at most \<open>-1\<close> numpy yields an
  infinity or NaN, which the reals do not have.)
\<close>

definition log1p :: "real \<Rightarrow> real" where
  "log1p x = ln (1 + x)"

text \<open>
  The three assignments \<^verbatim>\<open>out["R_inv"] = -out["Recencia"]\<close>,
  \<^verbatim>\<open>out["F_log"] = np.log1p(out["Frequencia"])\<close> and
  \<^verbatim>\<open>out["M_log"] = np.log1p(out["Receita"])\<close> on one row.
\<close>

definition add_features :: "'c rfm_row \<Rightarrow> 'c enriched_row" where
  "add_features r =
     \<lparr>rfm_row.Cliente = rfm_row.Cliente r,
      Recencia = rfm_row.Recencia r,
      Frequencia = rfm_row.Frequencia r,
      Receita = rfm_row.Receita r,
      R_inv = - rfm_row.Recencia r,
      F_log = log1p (rfm_row.Frequencia r),
      M_log = log1p (rfm_row.Receita r)\<rparr>"

text \<open>
  \<^verbatim>\<open>StandardScaler().fit_transform\<close> belongs to scikit-learn and is a parameter of the
  model. Reading a column whose label is absent raises \<^verbatim>\<open>KeyError\<close>.
\<close>

definition build_rfm_features ::
  "(real list list \<Rightarrow> error + real list list) \<Rightarrow> 'c rfm_row frame
     \<Rightarrow> error + (real list list \<times> 'c enriched_row frame)"
where
  "build_rfm_features StandardScaler_fit_transform rfm =
     (let out = rfm in
      if ''Recencia'' \<notin> set (columns out) then Inl KeyError
      else
        let cols1 = set_column ''R_inv'' (columns out) in
        if ''Frequencia'' \<notin> set cols1 then Inl KeyError
        else
          let cols2 = set_column ''F_log'' cols1 in
          if ''Receita'' \<notin> set cols2 then Inl KeyError
          else
            let cols3 = set_column ''M_log'' cols2;
                out_rows = map add_features (rows out);
                X = map (\<lambda>r. [R_inv r, F_log r, M_log r]) out_rows
            in case StandardScaler_fit_transform X of
                 Inl e \<Rightarrow> Inl e
               | Inr Xs \<Rightarrow> Inr (Xs, \<lparr>columns = cols3, rows = out_rows\<rparr>))"

subsection \<open>The elbow evaluator: \<^verbatim>\<open>calcular_wcss\<close>\<close>

text \<open>
  \<^verbatim>\<open>KMeans(n_clusters=k, init="k-means++", n_init=20, random_state=...).fit(Xs).inertia_\<close>
  belongs to scikit-learn and is a parameter of the model, called with \<open>k\<close>, the seed and
  the matrix. The loop runs over \<^verbatim>\<open>range(k_min, k_max + 1)\<close> and appends one inertia
  per \<open>k\<close>; an error of a fit ends it.
\<close>

fun calcular_wcss_loop ::
  "(int \<Rightarrow> int \<Rightarrow> real list list \<Rightarrow> error + real) \<Rightarrow> real list list \<Rightarrow> int
     \<Rightarrow> int list \<Rightarrow> real list \<Rightarrow> error + real list"
where
  "calcular_wcss_loop KMeans_fit_inertia Xs random_state [] wcss = Inr wcss"
| "calcular_wcss_loop KMeans_fit_inertia Xs random_state (k # ks) wcss =
     (case KMeans_fit_inertia k random_state Xs of
        Inl e \<Rightarrow> Inl e
      | Inr inertia \<Rightarrow>
          calcular_wcss_loop KMeans_fit_inertia Xs random_state ks (wcss @ [inertia]))"

definition calcular_wcss ::
  "(int \<Rightarrow> int \<Rightarrow> real list list \<Rightarrow> error + real) \<Rightarrow> real list list \<Rightarrow> int \<Rightarrow> int \<Rightarrow> int
     \<Rightarrow> error + real list"
where
  "calcular_wcss KMeans_fit_inertia Xs k_min k_max random_state =
     calcular_wcss_loop KMeans_fit_inertia Xs random_state [k_min..k_max] []"

subsection \<open>The joint clusterer: \<^verbatim>\<open>cluster_rfm_joint\<close>\<close>

text \<open>The aggregations \<^verbatim>\<open>mean\<close> and \<^verbatim>\<open>median\<close> of a group.\<close>

definition mean :: "real list \<Rightarrow> real" where
  "mean xs = sum_list xs / real (length xs)"

definition median :: "real list \<Rightarrow> real" where
  "median xs =
     (let s = sort xs; n = length xs
      in if odd n then s ! (n div 2) else (s ! (n div 2 - 1) + s ! (n div 2)) / 2)"

text \<open>
  \<^verbatim>\<open>groupby("ClusterId").agg(...).reset_index()\<close>: one row per cluster label that
  occurs, in ascending order of the label.
\<close>

definition groupby_agg :: "'c clustered_row list \<Rightarrow> agg_row list" where
  "groupby_agg rs =
     map (\<lambda>c. let g = filter (\<lambda>r. clustered_row.ClusterId r = c) rs in
            \<lparr>agg_row.ClusterId = c,
             Clientes = length (map rfm_row.Cliente g),
             Recencia_media = mean (map rfm_row.Recencia g),
             Recencia_mediana = median (map rfm_row.Recencia g),
             Frequencia_media = mean (map rfm_row.Frequencia g),
             Frequencia_mediana = median (map rfm_row.Frequencia g),
             Receita_media = mean (map rfm_row.Receita g),
             Receita_mediana = median (map rfm_row.Receita g),
             ScoreComposto_medio = mean (map clustered_row.ScoreComposto g)\<rparr>)
         (sort (remdups (map clustered_row.ClusterId rs)))"

text \<open>
  \<^verbatim>\<open>round(decimals)\<close> of numpy and pandas: scale, round to the nearest integer with
  halves going to the even neighbour, scale back.
\<close>

definition rint :: "real \<Rightarrow> int" where
  "rint x =
     (let f = \<lfloor>x\<rfloor>; d = x - real_of_int f
      in if d < 1 / 2 then f
         else if 1 / 2 < d then f + 1
         else if even f then f else f + 1)"

definition np_round :: "real \<Rightarrow> nat \<Rightarrow> real" where
  "np_round x decimals = real_of_int (rint (x * 10 ^ decimals)) / 10 ^ decimals"

text \<open>
  \<^verbatim>\<open>left.merge(right, on="ClusterId", how="left")\<close> with the right table reduced to the
  columns \<^verbatim>\<open>ClusterId\<close> and \<^verbatim>\<open>RankQualidade\<close>: every left row, in order, once per
  matching right row, or once with a missing rank. A label that both tables have besides
  the key gets the suffixes \<^verbatim>\<open>_x\<close> and \<^verbatim>\<open>_y\<close>.
\<close>

definition merge_left ::
  "'c clustered_row list \<Rightarrow> (int \<times> int) list \<Rightarrow> 'c merged_row list"
where
  "merge_left left right =
     concat (map (\<lambda>r.
       let with_rank = (\<lambda>q.
             \<lparr>rfm_row.Cliente = rfm_row.Cliente r,
              Recencia = rfm_row.Recencia r,
              Frequencia = rfm_row.Frequencia r,
              Receita = rfm_row.Receita r,
              R_inv = R_inv r, F_log = F_log r, M_log = M_log r,
              clustered_row.ClusterId = clustered_row.ClusterId r,
              ScoreComposto = clustered_row.ScoreComposto r,
              merged_row.RankQualidade = q\<rparr>)
       in case filter (\<lambda>p. fst p = clustered_row.ClusterId r) right of
            [] \<Rightarrow> [with_rank None]
          | ms \<Rightarrow> map (\<lambda>p. with_rank (Some (snd p))) ms) left)"

definition merge_columns :: "string list \<Rightarrow> string list \<Rightarrow> string \<Rightarrow> string list" where
  "merge_columns lcols rcols on =
     map (\<lambda>c. if c \<noteq> on \<and> c \<in> set rcols then c @ ''_x'' else c) lcols
     @ map (\<lambda>c. if c \<in> set lcols then c @ ''_y'' else c) (filter (\<lambda>c. c \<noteq> on) rcols)"

text \<open>The column names that the display loop rounds, by the tests of the source.\<close>

definition endswith :: "string \<Rightarrow> string \<Rightarrow> bool" where
  "endswith s suf = (length suf \<le> length s \<and> drop (length s - length suf) s = suf)"

fun contains :: "string \<Rightarrow> string \<Rightarrow> bool" where
  "contains [] sub = (sub = [])"
| "contains (c # cs) sub = (take (length sub) (c # cs) = sub \<or> contains cs sub)"

definition display_rounded :: "string \<Rightarrow> bool" where
  "display_rounded c =
     (endswith c ''_media'' \<or> endswith c ''_mediana'' \<or> contains c ''ScoreComposto'')"

text \<open>
  \<^verbatim>\<open>prof_display[c] = prof_display[c].astype(float).round(2)\<close> for one column of the
  profile. The integer columns would be unchanged in value.
\<close>

definition round_column :: "string \<Rightarrow> prof_row \<Rightarrow> prof_row" where
  "round_column c r =
     (if c = ''Recencia_media'' then r\<lparr>Recencia_media := np_round (Recencia_media r) 2\<rparr>
      else if c = ''Recencia_mediana'' then r\<lparr>Recencia_mediana := np_round (Recencia_mediana r) 2\<rparr>
      else if c = ''Frequencia_media'' then r\<lparr>Frequencia_media := np_round (Frequencia_media r) 2\<rparr>
      else if c = ''Frequencia_mediana'' then r\<lparr>Frequencia_mediana := np_round (Frequencia_mediana r) 2\<rparr>
      else if c = ''Receita_media'' then r\<lparr>Receita_media := np_round (Receita_media r) 2\<rparr>
      else if c = ''Receita_mediana'' then r\<lparr>Receita_mediana := np_round (Receita_mediana r) 2\<rparr>
      else if c = ''ScoreComposto_medio'' then r\<lparr>ScoreComposto_medio := np_round (ScoreComposto_medio r) 2\<rparr>
      else if c = ''PctBase'' then r\<lparr>PctBase := np_round (PctBase r) 2\<rparr>
      else r)"

fun display_loop :: "string list \<Rightarrow> prof_row list \<Rightarrow> prof_row list" where
  "display_loop [] prof_display = prof_display"
| "display_loop (c # cs) prof_display =
     (if display_rounded c then display_loop cs (map (round_column c) prof_display)
      else display_loop cs prof_display)"

text \<open>
  The blocks of \<^verbatim>\<open>cluster_rfm_joint\<close>, in the order of the source. First the two
  column assignments \<^verbatim>\<open>enriched["ClusterId"] = cluster_id\<close> and
  \<^verbatim>\<open>enriched["ScoreComposto"] = Xs.sum(axis=1)\<close>, row by row.
\<close>

definition clustered_rows ::
  "'c enriched_row list \<Rightarrow> int list \<Rightarrow> real list \<Rightarrow> 'c clustered_row list"
where
  "clustered_rows enriched cluster_id score =
     map (\<lambda>(r, c, s).
       \<lparr>rfm_row.Cliente = rfm_row.Cliente r,
        Recencia = rfm_row.Recencia r,
        Frequencia = rfm_row.Frequencia r,
        Receita = rfm_row.Receita r,
        R_inv = R_inv r, F_log = F_log r, M_log = M_log r,
        clustered_row.ClusterId = c,
        ScoreComposto = s\<rparr>) (zip enriched (zip cluster_id score))"

text \<open>
  The profile: aggregate, sort ascending by the mean score, number the rows from \<open>0\<close>,
  and divide each count by the total, rounded to four decimals. (pandas does not fix the
  order of rows with equal mean score; here they stay in the order of their labels. The
  properties below hold for either order.)
\<close>

definition profile_rows :: "'c clustered_row list \<Rightarrow> prof_row list" where
  "profile_rows enriched =
     (let prof = groupby_agg enriched;
          prof_sorted = sort_key ScoreComposto_medio prof;
          rank = map int [0..<length prof_sorted];
          total = sum_list (map Clientes prof_sorted)
      in map (\<lambda>(r, k).
           \<lparr>agg_row.ClusterId = agg_row.ClusterId r,
            Clientes = Clientes r,
            Recencia_media = Recencia_media r,
            Recencia_mediana = Recencia_mediana r,
            Frequencia_media = Frequencia_media r,
            Frequencia_mediana = Frequencia_mediana r,
            Receita_media = Receita_media r,
            Receita_mediana = Receita_mediana r,
            ScoreComposto_medio = ScoreComposto_medio r,
            prof_row.RankQualidade = k,
            PctBase = np_round (real (Clientes r) / real total) 4\<rparr>) (zip prof_sorted rank))"

definition profile_columns :: "string list" where
  "profile_columns =
     set_column ''PctBase'' (set_column ''RankQualidade''
       [''ClusterId'', ''Clientes'', ''Recencia_media'', ''Recencia_mediana'',
        ''Frequencia_media'', ''Frequencia_mediana'', ''Receita_media'',
        ''Receita_mediana'', ''ScoreComposto_medio''])"

text \<open>The rows of the returned table: the seven selected columns of a joined row.\<close>

definition customer_rows :: "'c merged_row list \<Rightarrow> 'c customer_row list" where
  "customer_rows merged =
     map (\<lambda>r.
       \<lparr>customer_row.Cliente = rfm_row.Cliente r,
        Recencia = rfm_row.Recencia r,
        Frequencia = rfm_row.Frequencia r,
        Receita = rfm_row.Receita r,
        ClusterId = clustered_row.ClusterId r,
        RankQualidade = merged_row.RankQualidade r,
        ScoreComposto = clustered_row.ScoreComposto r\<rparr>) merged"

text \<open>
  \<^verbatim>\<open>KMeans(...).fit_predict\<close> belongs to scikit-learn and is a parameter of the model,
  called with the number of clusters, the seed and the standardised matrix. Assigning
  a column of another length than the table raises \<^verbatim>\<open>ValueError\<close>; reading or
  selecting an absent label raises \<^verbatim>\<open>KeyError\<close>.
\<close>

definition cluster_rfm_joint ::
  "(real list list \<Rightarrow> error + real list list)
     \<Rightarrow> (int \<Rightarrow> int \<Rightarrow> real list list \<Rightarrow> error + int list)
     \<Rightarrow> 'c rfm_row frame \<Rightarrow> int \<Rightarrow> int
     \<Rightarrow> error + ('c customer_row frame \<times> prof_row frame)"
where
  "cluster_rfm_joint StandardScaler_fit_transform KMeans_fit_predict rfm n_clusters random_state =
     (case build_rfm_features StandardScaler_fit_transform rfm of
        Inl e \<Rightarrow> Inl e
      | Inr (Xs, enriched) \<Rightarrow>
     (case KMeans_fit_predict n_clusters random_state Xs of
        Inl e \<Rightarrow> Inl e
      | Inr cluster_id \<Rightarrow>
     if length cluster_id \<noteq> length (rows enriched) then Inl ValueError
     else
       let cols1 = set_column ''ClusterId'' (columns enriched);
           score = map sum_list Xs
       in
     if length score \<noteq> length (rows enriched) then Inl ValueError
     else
       let cols2 = set_column ''ScoreComposto'' cols1;
           enriched_rows = clustered_rows (rows enriched) cluster_id score
       in
     if ''Cliente'' \<notin> set cols2 then Inl KeyError
     else
       let prof = profile_rows enriched_rows;
           merged_rows = merge_left enriched_rows
             (map (\<lambda>p. (agg_row.ClusterId p, prof_row.RankQualidade p)) prof);
           merged_cols = merge_columns cols2 [''ClusterId'', ''RankQualidade''] ''ClusterId'';
           dropped_cols = filter (\<lambda>c. c \<notin> {''R_inv'', ''F_log'', ''M_log''}) merged_cols;
           cols = [''Cliente'', ''Recencia'', ''Frequencia'', ''Receita'', ''ClusterId'',
                   ''RankQualidade'', ''ScoreComposto'']
       in
     if \<not> set cols \<subseteq> set dropped_cols then Inl KeyError
     else
       let prof_display = display_loop profile_columns prof
       in Inr (\<lparr>columns = cols, rows = customer_rows merged_rows\<rparr>,
               \<lparr>columns = profile_columns, rows = prof_display\<rparr>)))"

text \<open>
  What the documentation of scikit-learn states about the two library calls, as far as
  the properties below depend on it: the scaler rejects a matrix without rows and returns
  a matrix of the shape of its argument; \<^verbatim>\<open>KMeans\<close> rejects fewer samples than
  clusters.
\<close>

definition sklearn_contract ::
  "(real list list \<Rightarrow> error + real list list)
     \<Rightarrow> (int \<Rightarrow> int \<Rightarrow> real list list \<Rightarrow> error + int list) \<Rightarrow> bool"
where
  "sklearn_contract StandardScaler_fit_transform KMeans_fit_predict \<longleftrightarrow>
     StandardScaler_fit_transform [] = Inl ValueError
     \<and> (\<forall>X Xs. StandardScaler_fit_transform X = Inr Xs \<longrightarrow>
            length Xs = length X \<and> (\<forall>i < length X. length (Xs ! i) = length (X ! i)))
     \<and> (\<forall>k seed X. int (length X) < k \<longrightarrow> KMeans_fit_predict k seed X = Inl ValueError)"

text \<open>
  The mean score of a cluster, read off the returned per-customer table: the mean of
  \<^verbatim>\<open>ScoreComposto\<close> over the customers whose \<^verbatim>\<open>ClusterId\<close> is \<open>c\<close>.
\<close>

definition cluster_mean_score :: "'c customer_row list \<Rightarrow> int \<Rightarrow> real" where
  "cluster_mean_score out c =
     mean (map customer_row.ScoreComposto (filter (\<lambda>r. customer_row.ClusterId r = c) out))"

subsection \<open>A concrete run\<close>

text \<open>
  Stand-ins for the two library calls, which meet \<open>sklearn_contract\<close>, and a table of
  three customers, to run the model on: the first passes a matrix with rows through
  unchanged, the second labels the samples \<open>0, 1, ..., k - 1, 0, 1, ...\<close> in order.
\<close>

definition stub_scaler :: "real list list \<Rightarrow> error + real list list" where
  "stub_scaler X = (if X = [] then Inl ValueError else Inr X)"

definition stub_kmeans :: "int \<Rightarrow> int \<Rightarrow> real list list \<Rightarrow> error + int list" where
  "stub_kmeans k seed X =
     (if k < 1 \<or> int (length X) < k then Inl ValueError
      else Inr (map (\<lambda>i. int i mod k) [0..<length X]))"

definition demo_rfm :: "string rfm_row frame" where
  "demo_rfm =
     \<lparr>columns = [''Cliente'', ''Recencia'', ''Frequencia'', ''Receita''],
      rows = [\<lparr>rfm_row.Cliente = ''a'', Recencia = 1, Frequencia = 0, Receita = 0\<rparr>,
              \<lparr>rfm_row.Cliente = ''b'', Recencia = 5, Frequencia = 0, Receita = 0\<rparr>,
              \<lparr>rfm_row.Cliente = ''c'', Recencia = 30, Frequencia = 0, Receita = 0\<rparr>]\<rparr>"

definition demo_out :: "string customer_row frame" where
  "demo_out =
     \<lparr>columns = [''Cliente'', ''Recencia'', ''Frequencia'', ''Receita'',
                 ''ClusterId'', ''RankQualidade'', ''ScoreComposto''],
      rows = [\<lparr>customer_row.Cliente = ''a'', Recencia = 1, Frequencia = 0, Receita = 0,
                ClusterId = 0, RankQualidade = Some 0, ScoreComposto = - 1\<rparr>,
              \<lparr>customer_row.Cliente = ''b'', Recencia = 5, Frequencia = 0, Receita = 0,
                ClusterId = 1, RankQualidade = Some 1, ScoreComposto = - 5\<rparr>,
              \<lparr>customer_row.Cliente = ''c'', Recencia = 30, Frequencia = 0, Receita = 0,
                ClusterId = 0, RankQualidade = Some 0, ScoreComposto = - 30\<rparr>]\<rparr>"

definition demo_prof :: "prof_row frame" where
  "demo_prof =
     \<lparr>columns = [''ClusterId'', ''Clientes'', ''Recencia_media'', ''Recencia_mediana'',
                 ''Frequencia_media'', ''Frequencia_mediana'', ''Receita_media'',
                 ''Receita_mediana'', ''ScoreComposto_medio'', ''RankQualidade'', ''PctBase''],
      rows = [\<lparr>agg_row.ClusterId = 0, Clientes = 2,
                Recencia_media = 31 / 2, Recencia_mediana = 31 / 2,
                Frequencia_media = 0, Frequencia_mediana = 0,
                Receita_media = 0, Receita_mediana = 0,
                ScoreComposto_medio = - (31 / 2),
                prof_row.RankQualidade = 0, PctBase = 6667 / 10000\<rparr>,
              \<lparr>agg_row.ClusterId = 1, Clientes = 1,
                Recencia_media = 5, Recencia_mediana = 5,
                Frequencia_media = 0, Frequencia_mediana = 0,
                Receita_media = 0, Receita_mediana = 0,
                ScoreComposto_medio = - 5,
                prof_row.RankQualidade = 1, PctBase = 3333 / 10000\<rparr>]\<rparr>"

subsection \<open>Facts about \<^verbatim>\<open>np.argmax\<close>\<close>

lemma argmax_scan_props:
  assumes "best_i < i"
  shows "let j = argmax_scan xs i best_i best in
           (j = best_i \<or> (i \<le> j \<and> j < i + length xs))
           \<and> (j = best_i \<longrightarrow> (\<forall>m < length xs. xs ! m \<le> best))
           \<and> (i \<le> j \<longrightarrow> best < xs ! (j - i)
                 \<and> (\<forall>m < length xs. xs ! m \<le> xs ! (j - i))
                 \<and> (\<forall>m < j - i. xs ! m < xs ! (j - i)))"
  using assms
proof (induction xs arbitrary: i best_i best)
  case Nil
  then show ?case by simp
next
  case (Cons x xs)
  show ?case
  proof (cases "best < x")
    case True
    let ?j = "argmax_scan xs (Suc i) i x"
    have ih: "(?j = i \<or> (Suc i \<le> ?j \<and> ?j < Suc i + length xs))
           \<and> (?j = i \<longrightarrow> (\<forall>m < length xs. xs ! m \<le> x))
           \<and> (Suc i \<le> ?j \<longrightarrow> x < xs ! (?j - Suc i)
                 \<and> (\<forall>m < length xs. xs ! m \<le> xs ! (?j - Suc i))
                 \<and> (\<forall>m < ?j - Suc i. xs ! m < xs ! (?j - Suc i)))"
      using Cons.IH[of i "Suc i" x] by (simp add: Let_def)
    have eq: "argmax_scan (x # xs) i best_i best = ?j" using True by simp
    show ?thesis
    proof (cases "?j = i")
      case True
      with ih have le: "\<forall>m < length xs. xs ! m \<le> x" by simp
      have "\<forall>m < length (x # xs). (x # xs) ! m \<le> x"
      proof (intro allI impI)
        fix m assume "m < length (x # xs)"
        then show "(x # xs) ! m \<le> x" using le by (cases m) auto
      qed
      with True eq \<open>best < x\<close> Cons.prems show ?thesis by (simp add: Let_def)
    next
      case False
      with ih have j: "Suc i \<le> ?j" "?j < Suc i + length xs"
        and gt: "x < xs ! (?j - Suc i)"
        and mx: "\<forall>m < length xs. xs ! m \<le> xs ! (?j - Suc i)"
        and fs: "\<forall>m < ?j - Suc i. xs ! m < xs ! (?j - Suc i)" by auto
      have idx: "(x # xs) ! (?j - i) = xs ! (?j - Suc i)"
        using j by (simp add: nth_Cons split: nat.splits) (metis Suc_diff_Suc Suc_le_lessD diff_Suc_Suc nat.inject)
      have m1: "\<forall>m < length (x # xs). (x # xs) ! m \<le> xs ! (?j - Suc i)"
      proof (intro allI impI)
        fix m assume "m < length (x # xs)"
        then show "(x # xs) ! m \<le> xs ! (?j - Suc i)" using mx gt by (cases m) auto
      qed
      have m2: "\<forall>m < ?j - i. (x # xs) ! m < xs ! (?j - Suc i)"
      proof (intro allI impI)
        fix m assume "m < ?j - i"
        then show "(x # xs) ! m < xs ! (?j - Suc i)" using fs gt j by (cases m) auto
      qed
      have "?j \<noteq> best_i" using j Cons.prems by simp
      with eq idx m1 m2 j gt \<open>best < x\<close> show ?thesis by (simp add: Let_def)
    qed
  next
    case False
    let ?j = "argmax_scan xs (Suc i) best_i best"
    have ih: "(?j = best_i \<or> (Suc i \<le> ?j \<and> ?j < Suc i + length xs))
           \<and> (?j = best_i \<longrightarrow> (\<forall>m < length xs. xs ! m \<le> best))
           \<and> (Suc i \<le> ?j \<longrightarrow> best < xs ! (?j - Suc i)
                 \<and> (\<forall>m < length xs. xs ! m \<le> xs ! (?j - Suc i))
                 \<and> (\<forall>m < ?j - Suc i. xs ! m < xs ! (?j - Suc i)))"
      using Cons.IH[of best_i "Suc i" best] Cons.prems by (simp add: Let_def)
    have eq: "argmax_scan (x # xs) i best_i best = ?j" using False by simp
    show ?thesis
    proof (cases "?j = best_i")
      case True
      with ih have le: "\<forall>m < length xs. xs ! m \<le> best" by simp
      have "\<forall>m < length (x # xs). (x # xs) ! m \<le> best"
      proof (intro allI impI)
        fix m assume "m < length (x # xs)"
        then show "(x # xs) ! m \<le> best" using le False by (cases m) auto
      qed
      with True eq Cons.prems show ?thesis by (simp add: Let_def)
    next
      case F2: False
      with ih have j: "Suc i \<le> ?j" "?j < Suc i + length xs"
        and gt: "best < xs ! (?j - Suc i)"
        and mx: "\<forall>m < length xs. xs ! m \<le> xs ! (?j - Suc i)"
        and fs: "\<forall>m < ?j - Suc i. xs ! m < xs ! (?j - Suc i)" by auto
      have idx: "(x # xs) ! (?j - i) = xs ! (?j - Suc i)"
        using j by (simp add: nth_Cons split: nat.splits) (metis Suc_diff_Suc Suc_le_lessD diff_Suc_Suc nat.inject)
      have m1: "\<forall>m < length (x # xs). (x # xs) ! m \<le> xs ! (?j - Suc i)"
      proof (intro allI impI)
        fix m assume "m < length (x # xs)"
        then show "(x # xs) ! m \<le> xs ! (?j - Suc i)" using mx gt False by (cases m) auto
      qed
      have m2: "\<forall>m < ?j - i. (x # xs) ! m < xs ! (?j - Suc i)"
      proof (intro allI impI)
        fix m assume "m < ?j - i"
        then show "(x # xs) ! m < xs ! (?j - Suc i)" using fs gt j False by (cases m) auto
      qed
      from eq idx m1 m2 j gt F2 show ?thesis by (simp add: Let_def)
    qed
  qed
qed

lemma np_argmax_props:
  assumes "xs \<noteq> []"
  shows "\<exists>j. np_argmax xs = Inr j \<and> j < length xs
             \<and> (\<forall>m < length xs. xs ! m \<le> xs ! j)
             \<and> (\<forall>m < j. xs ! m < xs ! j)"
proof -
  from assms obtain x rest where xs: "xs = x # rest" by (cases xs) auto
  let ?j = "argmax_scan rest 1 0 x"
  have res: "np_argmax xs = Inr ?j" by (simp add: np_argmax_def xs)
  have p: "(?j = 0 \<or> (1 \<le> ?j \<and> ?j < 1 + length rest))
           \<and> (?j = 0 \<longrightarrow> (\<forall>m < length rest. rest ! m \<le> x))
           \<and> (1 \<le> ?j \<longrightarrow> x < rest ! (?j - 1)
                 \<and> (\<forall>m < length rest. rest ! m \<le> rest ! (?j - 1))
                 \<and> (\<forall>m < ?j - 1. rest ! m < rest ! (?j - 1)))"
    using argmax_scan_props[of 0 1 rest x] by (simp add: Let_def)
  show ?thesis
  proof (cases "?j = 0")
    case True
    with p have le: "\<forall>m < length rest. rest ! m \<le> x" by simp
    have "\<forall>m < length xs. xs ! m \<le> xs ! 0"
    proof (intro allI impI)
      fix m assume "m < length xs"
      then show "xs ! m \<le> xs ! 0" using le xs by (cases m) auto
    qed
    with True res xs show ?thesis by simp
  next
    case False
    with p have j: "1 \<le> ?j" "?j < 1 + length rest"
      and gt: "x < rest ! (?j - 1)"
      and mx: "\<forall>m < length rest. rest ! m \<le> rest ! (?j - 1)"
      and fs: "\<forall>m < ?j - 1. rest ! m < rest ! (?j - 1)" by auto
    have idx: "xs ! ?j = rest ! (?j - 1)" using j xs by (simp add: nth_Cons')
    have m1: "\<forall>m < length xs. xs ! m \<le> xs ! ?j"
    proof (intro allI impI)
      fix m assume "m < length xs"
      then show "xs ! m \<le> xs ! ?j" using mx gt xs idx by (cases m) auto
    qed
    have m2: "\<forall>m < ?j. xs ! m < xs ! ?j"
    proof (intro allI impI)
      fix m assume "m < ?j"
      then show "xs ! m < xs ! ?j" using fs gt xs idx by (cases m) auto
    qed
    from res j xs m1 m2 show ?thesis by auto
  qed
qed

subsection \<open>Facts about the distance loop\<close>

lemma distancias_loop_nonzero:
  assumes "sqrt ((y2 - y1)\<^sup>2 + (real_of_int (x2 - x1))\<^sup>2) \<noteq> 0"
  shows "distancias_loop k_min x1 y1 x2 y2 ps acc =
           Inr (acc @ map (\<lambda>(i, y0).
                  \<bar>(y2 - y1) * real_of_int (k_min + int i) - real_of_int (x2 - x1) * y0
                     + real_of_int x2 * y1 - y2 * real_of_int x1\<bar>
                  / sqrt ((y2 - y1)\<^sup>2 + (real_of_int (x2 - x1))\<^sup>2)) ps)"
  using assms by (induction ps arbitrary: acc) (auto simp: Let_def)

lemma distancias_loop_zero:
  assumes "sqrt ((y2 - y1)\<^sup>2 + (real_of_int (x2 - x1))\<^sup>2) = 0" and "ps \<noteq> []"
  shows "distancias_loop k_min x1 y1 x2 y2 ps acc = Inl ZeroDivisionError"
  using assms by (cases ps) (auto simp: Let_def)

lemma denominador_zero_iff:
  "sqrt ((y2 - y1)\<^sup>2 + (real_of_int (x2 - x1))\<^sup>2) = 0 \<longleftrightarrow> y2 = y1 \<and> x2 = x1"
  by (auto simp: sum_power2_eq_zero_iff)

lemma distancias_eq_knee_distance:
  assumes "i < length wcss"
  shows "(map (\<lambda>(i, y0).
            \<bar>(last wcss - hd wcss) * real_of_int (k_min + int i)
               - real_of_int (k_max - k_min) * y0
               + real_of_int k_max * hd wcss - last wcss * real_of_int k_min\<bar>
            / sqrt ((last wcss - hd wcss)\<^sup>2 + (real_of_int (k_max - k_min))\<^sup>2))
          (enumerate 0 wcss)) ! i
         = knee_distance wcss k_min k_max (k_min + int i)"
  using assms by (simp add: knee_distance_def spec_distance_def nth_enumerate_eq)



lemma knee_degenerate:
  assumes "wcss \<noteq> []" and "k_min = k_max" and "hd wcss = last wcss"
  shows "get_numero_otimo_clusters wcss k_min k_max = Inl ZeroDivisionError"
proof -
  have "enumerate 0 wcss \<noteq> []" using assms(1) by (cases wcss) auto
  then have "distancias_loop k_min k_min (hd wcss) k_max (last wcss) (enumerate 0 wcss) []
               = Inl ZeroDivisionError"
    using assms by (intro distancias_loop_zero) auto
  then show ?thesis using assms(1) by (simp add: get_numero_otimo_clusters_def Let_def)
qed

lemma knee_returns:
  assumes "wcss \<noteq> []" and "k_min \<noteq> k_max \<or> hd wcss \<noteq> last wcss"
  shows "\<exists>j. get_numero_otimo_clusters wcss k_min k_max = Inr (k_min + int j)
           \<and> j < length wcss
           \<and> (\<forall>m < length wcss. knee_distance wcss k_min k_max (k_min + int m)
                                   \<le> knee_distance wcss k_min k_max (k_min + int j))
           \<and> (\<forall>m < j. knee_distance wcss k_min k_max (k_min + int m)
                          < knee_distance wcss k_min k_max (k_min + int j))"
proof -
  let ?f = "\<lambda>(i, y0).
            \<bar>(last wcss - hd wcss) * real_of_int (k_min + int i)
               - real_of_int (k_max - k_min) * y0
               + real_of_int k_max * hd wcss - last wcss * real_of_int k_min\<bar>
            / sqrt ((last wcss - hd wcss)\<^sup>2 + (real_of_int (k_max - k_min))\<^sup>2)"
  let ?ds = "map ?f (enumerate 0 wcss)"
  have nz: "sqrt ((last wcss - hd wcss)\<^sup>2 + (real_of_int (k_max - k_min))\<^sup>2) \<noteq> 0"
    using assms(2) by (auto simp: denominador_zero_iff)
  have loop: "distancias_loop k_min k_min (hd wcss) k_max (last wcss) (enumerate 0 wcss) []
                = Inr ?ds"
    using distancias_loop_nonzero[OF nz, of k_min "enumerate 0 wcss" "[]"] by simp
  have len: "length ?ds = length wcss" by simp
  have ne: "?ds \<noteq> []" using assms(1) by (cases wcss) auto
  from np_argmax_props[OF ne] obtain j where j: "np_argmax ?ds = Inr j" "j < length ?ds"
    and mx: "\<forall>m < length ?ds. ?ds ! m \<le> ?ds ! j"
    and fs: "\<forall>m < j. ?ds ! m < ?ds ! j" by blast
  have jl: "j < length wcss" using j(2) len by simp
  have res: "get_numero_otimo_clusters wcss k_min k_max = Inr (k_min + int j)"
    using assms(1) loop j(1) by (simp add: get_numero_otimo_clusters_def Let_def)
  have a: "\<forall>m < length wcss. knee_distance wcss k_min k_max (k_min + int m)
                                   \<le> knee_distance wcss k_min k_max (k_min + int j)"
  proof (intro allI impI)
    fix m assume m: "m < length wcss"
    have "?ds ! m \<le> ?ds ! j" using mx m len by simp
    then show "knee_distance wcss k_min k_max (k_min + int m)
                 \<le> knee_distance wcss k_min k_max (k_min + int j)"
      using distancias_eq_knee_distance[OF m, of k_min k_max]
            distancias_eq_knee_distance[OF jl, of k_min k_max] by simp
  qed
  have b: "\<forall>m < j. knee_distance wcss k_min k_max (k_min + int m)
                          < knee_distance wcss k_min k_max (k_min + int j)"
  proof (intro allI impI)
    fix m assume m: "m < j"
    then have ml: "m < length wcss" using jl by simp
    have "?ds ! m < ?ds ! j" using fs m by simp
    then show "knee_distance wcss k_min k_max (k_min + int m)
                 < knee_distance wcss k_min k_max (k_min + int j)"
      using distancias_eq_knee_distance[OF ml, of k_min k_max]
            distancias_eq_knee_distance[OF jl, of k_min k_max] by simp
  qed
  from res jl a b show ?thesis by blast
qed

subsection \<open>Facts about the elbow evaluator\<close>

text \<open>
  The sequence that \<^verbatim>\<open>calcular_wcss\<close> returns has one entry per candidate of the range,
  and entry \<open>i\<close> is the inertia that the library reported for \<open>k_min + i\<close>.
\<close>

lemma calcular_wcss_loop_Inr:
  assumes "calcular_wcss_loop km Xs seed ks acc = Inr wcss"
  shows "length wcss = length acc + length ks
       \<and> take (length acc) wcss = acc
       \<and> (\<forall>i < length ks. km (ks ! i) seed Xs = Inr (wcss ! (length acc + i)))"
  using assms
proof (induction ks arbitrary: acc)
  case Nil
  then show ?case by simp
next
  case (Cons k ks)
  from Cons.prems obtain inertia where k: "km k seed Xs = Inr inertia"
    and r: "calcular_wcss_loop km Xs seed ks (acc @ [inertia]) = Inr wcss"
    by (auto split: sum.splits)
  from Cons.IH[OF r] have len: "length wcss = length (acc @ [inertia]) + length ks"
    and tk: "take (length (acc @ [inertia])) wcss = acc @ [inertia]"
    and rest: "\<forall>i < length ks. km (ks ! i) seed Xs = Inr (wcss ! (length (acc @ [inertia]) + i))"
    by auto
  have t1: "take (length acc) wcss = acc"
    using arg_cong[OF tk, of "take (length acc)"] by (simp add: min_def)
  have "wcss ! length acc = (acc @ [inertia]) ! length acc"
    using arg_cong[OF tk, of "\<lambda>xs. xs ! length acc"] by simp
  then have h: "wcss ! length acc = inertia" by simp
  have "\<forall>i < length (k # ks). km ((k # ks) ! i) seed Xs = Inr (wcss ! (length acc + i))"
  proof (intro allI impI)
    fix i assume "i < length (k # ks)"
    then show "km ((k # ks) ! i) seed Xs = Inr (wcss ! (length acc + i))"
      using k h rest by (cases i) auto
  qed
  with len t1 show ?case by simp
qed

lemma calcular_wcss_values:
  assumes "calcular_wcss km Xs k_min k_max seed = Inr wcss"
  shows "int (length wcss) = max 0 (k_max - k_min + 1)
       \<and> (\<forall>i < length wcss. km (k_min + int i) seed Xs = Inr (wcss ! i))"
proof -
  from calcular_wcss_loop_Inr[OF assms[unfolded calcular_wcss_def]]
  have len: "length wcss = length [k_min..k_max]"
    and v: "\<forall>i < length [k_min..k_max]. km ([k_min..k_max] ! i) seed Xs = Inr (wcss ! i)"
    by auto
  have "\<forall>i < length wcss. km (k_min + int i) seed Xs = Inr (wcss ! i)"
  proof (intro allI impI)
    fix i assume i: "i < length wcss"
    then have "[k_min..k_max] ! i = k_min + int i" using len by (simp add: nth_upto)
    with v i len show "km (k_min + int i) seed Xs = Inr (wcss ! i)" by auto
  qed
  with len show ?thesis by auto
qed

subsection \<open>Facts about rounding\<close>






subsection \<open>Facts about the grouping and the profile\<close>

lemma groupby_agg_keys:
  "map agg_row.ClusterId (groupby_agg rs) = sort (remdups (map clustered_row.ClusterId rs))"
  by (simp add: groupby_agg_def Let_def comp_def)

lemma groupby_agg_distinct: "distinct (map agg_row.ClusterId (groupby_agg rs))"
  by (simp add: groupby_agg_keys)

lemma groupby_agg_key_set:
  "set (map agg_row.ClusterId (groupby_agg rs)) = clustered_row.ClusterId ` set rs"
  by (simp add: groupby_agg_keys)

lemma groupby_agg_row:
  assumes "p \<in> set (groupby_agg rs)"
  shows "Clientes p = length (filter (\<lambda>r. clustered_row.ClusterId r = agg_row.ClusterId p) rs)"
    and "ScoreComposto_medio p =
           mean (map clustered_row.ScoreComposto
                  (filter (\<lambda>r. clustered_row.ClusterId r = agg_row.ClusterId p) rs))"
  using assms by (auto simp: groupby_agg_def Let_def)

lemma sum_count_by_key:
  assumes "distinct ks" and "f ` set rs \<subseteq> set ks"
  shows "(\<Sum>k\<leftarrow>ks. length (filter (\<lambda>r. f r = k) rs)) = length rs"
  using assms(2)
proof (induction rs)
  case Nil
  then show ?case by simp
next
  case (Cons r rs)
  then have in_ks: "f r \<in> set ks" and sub: "f ` set rs \<subseteq> set ks" by auto
  have one: "(\<Sum>k\<leftarrow>ks. if f r = k then 1 else 0) = (1::nat)"
    using assms(1) in_ks by (simp add: sum_list_distinct_conv_sum_set sum.delta')
  have "(\<Sum>k\<leftarrow>ks. length (filter (\<lambda>x. f x = k) (r # rs)))
          = (\<Sum>k\<leftarrow>ks. (if f r = k then 1 else 0) + length (filter (\<lambda>x. f x = k) rs))"
    by (intro arg_cong[where f = sum_list] map_cong) auto
  also have "\<dots> = (\<Sum>k\<leftarrow>ks. if f r = k then 1 else 0)
                    + (\<Sum>k\<leftarrow>ks. length (filter (\<lambda>x. f x = k) rs))"
    by (simp add: sum_list_addf)
  also have "\<dots> = 1 + length rs" using one Cons.IH[OF sub] by simp
  finally show ?case by simp
qed

lemma groupby_agg_total:
  "sum_list (map Clientes (groupby_agg rs)) = length rs"
proof -
  let ?ks = "sort (remdups (map clustered_row.ClusterId rs))"
  have "sum_list (map Clientes (groupby_agg rs))
          = (\<Sum>k\<leftarrow>?ks. length (filter (\<lambda>r. clustered_row.ClusterId r = k) rs))"
    by (simp add: groupby_agg_def Let_def comp_def)
  also have "\<dots> = length rs"
    by (rule sum_count_by_key) auto
  finally show ?thesis .
qed

lemma map_zip_fst:
  "length xs = length ys \<Longrightarrow> map (\<lambda>p. g (fst p)) (zip xs ys) = map g xs"
  by (induction xs ys rule: list_induct2) auto

lemma map_zip_snd:
  "length xs = length ys \<Longrightarrow> map (\<lambda>p. g (snd p)) (zip xs ys) = map g ys"
  by (induction xs ys rule: list_induct2) auto

lemma sum_list_insort_key:
  "sum_list (map f (insort_key g x xs)) = f x + sum_list (map f xs)"
  for f :: "'a \<Rightarrow> nat"
  by (induction xs) auto

lemma sum_list_sort_key:
  "sum_list (map f (sort_key g xs)) = sum_list (map f xs)"
  for f :: "'a \<Rightarrow> nat"
  by (induction xs) (auto simp: sum_list_insort_key)

lemma distinct_map_insort_key:
  "distinct (map f (insort_key g x xs)) \<longleftrightarrow> f x \<notin> f ` set xs \<and> distinct (map f xs)"
  by (induction xs) (auto simp: set_insort_key)

lemma distinct_map_sort_key:
  "distinct (map f (sort_key g xs)) \<longleftrightarrow> distinct (map f xs)"
  by (induction xs) (auto simp: distinct_map_insort_key)

lemma profile_rows_length: "length (profile_rows E) = length (groupby_agg E)"
  by (simp add: profile_rows_def Let_def)

lemma profile_rows_keys:
  "map agg_row.ClusterId (profile_rows E)
     = map agg_row.ClusterId (sort_key ScoreComposto_medio (groupby_agg E))"
  by (simp add: profile_rows_def Let_def comp_def case_prod_unfold map_zip_fst)

lemma profile_rows_rank:
  "map prof_row.RankQualidade (profile_rows E) = map int [0..<length (profile_rows E)]"
  by (simp add: profile_rows_def Let_def comp_def case_prod_unfold
        map_zip_snd[where g = "\<lambda>x. x"])

lemma profile_rows_score:
  "map ScoreComposto_medio (profile_rows E)
     = map ScoreComposto_medio (sort_key ScoreComposto_medio (groupby_agg E))"
  by (simp add: profile_rows_def Let_def comp_def case_prod_unfold map_zip_fst)

lemma profile_rows_clientes:
  "map Clientes (profile_rows E)
     = map Clientes (sort_key ScoreComposto_medio (groupby_agg E))"
  by (simp add: profile_rows_def Let_def comp_def case_prod_unfold map_zip_fst)

lemma profile_rows_total:
  "sum_list (map Clientes (profile_rows E)) = length E"
  by (simp add: profile_rows_clientes sum_list_sort_key groupby_agg_total)

lemma profile_rows_pct:
  "map PctBase (profile_rows E)
     = map (\<lambda>r. np_round (real (Clientes r) / real (length E)) 4) (profile_rows E)"
proof -
  have t: "sum_list (map Clientes (sort_key ScoreComposto_medio (groupby_agg E))) = length E"
    by (simp add: sum_list_sort_key groupby_agg_total)
  show ?thesis
    by (simp add: profile_rows_def Let_def comp_def case_prod_unfold t)
qed

lemma profile_rows_sorted: "sorted (map ScoreComposto_medio (profile_rows E))"
  by (simp add: profile_rows_score sorted_sort_key)

lemma profile_rows_distinct: "distinct (map agg_row.ClusterId (profile_rows E))"
  by (simp add: profile_rows_keys distinct_map_sort_key groupby_agg_distinct)

lemma profile_rows_key_set:
  "set (map agg_row.ClusterId (profile_rows E)) = clustered_row.ClusterId ` set E"
proof -
  have "set (map agg_row.ClusterId (sort_key ScoreComposto_medio (groupby_agg E)))
          = set (map agg_row.ClusterId (groupby_agg E))"
    by simp
  then show ?thesis by (simp only: profile_rows_keys groupby_agg_key_set)
qed

text \<open>Each profile row carries the aggregates of its cluster.\<close>

lemma profile_rows_row:
  assumes "p \<in> set (profile_rows E)"
  shows "Clientes p = length (filter (\<lambda>r. clustered_row.ClusterId r = agg_row.ClusterId p) E)"
    and "ScoreComposto_medio p =
           mean (map clustered_row.ScoreComposto
                  (filter (\<lambda>r. clustered_row.ClusterId r = agg_row.ClusterId p) E))"
proof -
  from assms obtain r k where rk: "(r, k) \<in> set (zip (sort_key ScoreComposto_medio (groupby_agg E))
        (map int [0..<length (sort_key ScoreComposto_medio (groupby_agg E))]))"
    and p: "agg_row.ClusterId p = agg_row.ClusterId r" "Clientes p = Clientes r"
           "ScoreComposto_medio p = ScoreComposto_medio r"
    by (auto simp: profile_rows_def Let_def)
  from rk have "r \<in> set (sort_key ScoreComposto_medio (groupby_agg E))"
    by (rule set_zip_leftD)
  then have r: "r \<in> set (groupby_agg E)" by simp
  from groupby_agg_row[OF r] p
  show "Clientes p = length (filter (\<lambda>r. clustered_row.ClusterId r = agg_row.ClusterId p) E)"
    and "ScoreComposto_medio p =
           mean (map clustered_row.ScoreComposto
                  (filter (\<lambda>r. clustered_row.ClusterId r = agg_row.ClusterId p) E))"
    by simp_all
qed

subsection \<open>Facts about the join and the returned tables\<close>

lemma filter_unique_key:
  assumes "distinct (map fst R)" and "(c, v) \<in> set R"
  shows "filter (\<lambda>p. fst p = c) R = [(c, v)]"
  using assms
proof (induction R)
  case Nil
  then show ?case by simp
next
  case (Cons a R)
  show ?case
  proof (cases "fst a = c")
    case True
    with Cons.prems have "a = (c, v)" by (cases a) (auto simp: image_iff)
    moreover have "filter (\<lambda>p. fst p = c) R = []"
      using Cons.prems True by (auto simp: filter_empty_conv image_iff)
    ultimately show ?thesis by simp
  next
    case False
    with Cons show ?thesis by auto
  qed
qed

text \<open>
  When every key of the left table occurs once in the right table, the left join keeps
  the rows one for one and fills in the rank of the key.
\<close>

lemma customer_rows_merge_left:
  assumes "distinct (map fst R)" and "clustered_row.ClusterId ` set E \<subseteq> fst ` set R"
  shows "customer_rows (merge_left E R) =
           map (\<lambda>r. \<lparr>customer_row.Cliente = rfm_row.Cliente r,
                       Recencia = rfm_row.Recencia r,
                       Frequencia = rfm_row.Frequencia r,
                       Receita = rfm_row.Receita r,
                       ClusterId = clustered_row.ClusterId r,
                       RankQualidade = map_of R (clustered_row.ClusterId r),
                       ScoreComposto = clustered_row.ScoreComposto r\<rparr>) E"
  using assms(2)
proof (induction E)
  case Nil
  then show ?case by (simp add: merge_left_def customer_rows_def)
next
  case (Cons r E)
  then obtain v where v: "(clustered_row.ClusterId r, v) \<in> set R" by auto
  then have m: "map_of R (clustered_row.ClusterId r) = Some v"
    using assms(1) by simp
  have f: "filter (\<lambda>p. fst p = clustered_row.ClusterId r) R = [(clustered_row.ClusterId r, v)]"
    by (rule filter_unique_key[OF assms(1) v])
  have ih: "customer_rows (merge_left E R) =
           map (\<lambda>r. \<lparr>customer_row.Cliente = rfm_row.Cliente r,
                       Recencia = rfm_row.Recencia r,
                       Frequencia = rfm_row.Frequencia r,
                       Receita = rfm_row.Receita r,
                       ClusterId = clustered_row.ClusterId r,
                       RankQualidade = map_of R (clustered_row.ClusterId r),
                       ScoreComposto = clustered_row.ScoreComposto r\<rparr>) E"
    using Cons by auto
  have "merge_left (r # E) R =
          \<lparr>rfm_row.Cliente = rfm_row.Cliente r,
              Recencia = rfm_row.Recencia r,
              Frequencia = rfm_row.Frequencia r,
              Receita = rfm_row.Receita r,
              R_inv = R_inv r, F_log = F_log r, M_log = M_log r,
              clustered_row.ClusterId = clustered_row.ClusterId r,
              ScoreComposto = clustered_row.ScoreComposto r,
              merged_row.RankQualidade = Some v\<rparr> # merge_left E R"
    by (simp add: merge_left_def Let_def f)
  then show ?case using ih m by (simp add: customer_rows_def)
qed

lemma clustered_rows_length:
  assumes "length cs = length es" and "length ss = length es"
  shows "length (clustered_rows es cs ss) = length es"
  using assms by (simp add: clustered_rows_def)

lemma build_rfm_features_Inr:
  assumes "build_rfm_features sc rfm = Inr (Xs, enriched)"
  shows "sc (map (\<lambda>r. [- rfm_row.Recencia r, log1p (rfm_row.Frequencia r),
                          log1p (rfm_row.Receita r)]) (rows rfm)) = Inr Xs"
    and "rows enriched = map add_features (rows rfm)"
  using assms
  by (auto simp: build_rfm_features_def Let_def add_features_def comp_def
           split: if_splits sum.splits)

lemma cluster_rfm_joint_Inr:
  assumes "cluster_rfm_joint sc km rfm k seed = Inr (out, prof)"
  shows "\<exists>Xs cluster_id.
           sc (map (\<lambda>r. [- rfm_row.Recencia r, log1p (rfm_row.Frequencia r),
                            log1p (rfm_row.Receita r)]) (rows rfm)) = Inr Xs
         \<and> km k seed Xs = Inr cluster_id
         \<and> length cluster_id = length (rows rfm)
         \<and> length Xs = length (rows rfm)
         \<and> out = \<lparr>columns = [''Cliente'', ''Recencia'', ''Frequencia'', ''Receita'',
                               ''ClusterId'', ''RankQualidade'', ''ScoreComposto''],
                    rows = customer_rows (merge_left
                      (clustered_rows (map add_features (rows rfm)) cluster_id (map sum_list Xs))
                      (map (\<lambda>p. (agg_row.ClusterId p, prof_row.RankQualidade p))
                        (profile_rows (clustered_rows (map add_features (rows rfm))
                           cluster_id (map sum_list Xs)))))\<rparr>
         \<and> prof = \<lparr>columns = profile_columns,
                     rows = display_loop profile_columns
                       (profile_rows (clustered_rows (map add_features (rows rfm))
                           cluster_id (map sum_list Xs)))\<rparr>"
proof -
  from assms obtain Xs enriched where b: "build_rfm_features sc rfm = Inr (Xs, enriched)"
    by (auto simp: cluster_rfm_joint_def split: sum.splits)
  from assms b obtain cluster_id where km: "km k seed Xs = Inr cluster_id"
    by (auto simp: cluster_rfm_joint_def split: sum.splits)
  note f = build_rfm_features_Inr[OF b]
  from assms b km have l1: "length cluster_id = length (rows enriched)"
    by (auto simp: cluster_rfm_joint_def split: if_splits)
  from assms b km l1 have l2: "length Xs = length (rows enriched)"
    by (auto simp: cluster_rfm_joint_def Let_def split: if_splits)
  from assms b km l1 l2 have
    "out = \<lparr>columns = [''Cliente'', ''Recencia'', ''Frequencia'', ''Receita'',
                               ''ClusterId'', ''RankQualidade'', ''ScoreComposto''],
                    rows = customer_rows (merge_left
                      (clustered_rows (rows enriched) cluster_id (map sum_list Xs))
                      (map (\<lambda>p. (agg_row.ClusterId p, prof_row.RankQualidade p))
                        (profile_rows (clustered_rows (rows enriched)
                           cluster_id (map sum_list Xs)))))\<rparr>"
    and "prof = \<lparr>columns = profile_columns,
                     rows = display_loop profile_columns
                       (profile_rows (clustered_rows (rows enriched)
                           cluster_id (map sum_list Xs)))\<rparr>"
    by (simp_all add: cluster_rfm_joint_def Let_def split: if_splits)
  with f km l1 l2 show ?thesis by auto
qed






lemma customer_rows_merge_left_columns:
  assumes "distinct (map fst R)" and "clustered_row.ClusterId ` set E \<subseteq> fst ` set R"
  shows "length (customer_rows (merge_left E R)) = length E"
    and "map customer_row.Cliente (customer_rows (merge_left E R)) = map rfm_row.Cliente E"
    and "map customer_row.Recencia (customer_rows (merge_left E R)) = map rfm_row.Recencia E"
    and "map customer_row.Frequencia (customer_rows (merge_left E R)) = map rfm_row.Frequencia E"
    and "map customer_row.Receita (customer_rows (merge_left E R)) = map rfm_row.Receita E"
    and "map customer_row.ClusterId (customer_rows (merge_left E R))
           = map clustered_row.ClusterId E"
    and "map customer_row.ScoreComposto (customer_rows (merge_left E R))
           = map clustered_row.ScoreComposto E"
    and "map customer_row.RankQualidade (customer_rows (merge_left E R))
           = map (\<lambda>r. map_of R (clustered_row.ClusterId r)) E"
  by (simp_all add: customer_rows_merge_left[OF assms] comp_def)

lemma customer_rows_merge_left_groups:
  assumes "distinct (map fst R)" and "clustered_row.ClusterId ` set E \<subseteq> fst ` set R"
  shows "map customer_row.ScoreComposto
           (filter (\<lambda>r. customer_row.ClusterId r = c) (customer_rows (merge_left E R)))
         = map clustered_row.ScoreComposto (filter (\<lambda>r. clustered_row.ClusterId r = c) E)"
  by (simp add: customer_rows_merge_left[OF assms] filter_map comp_def)

lemma clustered_rows_columns:
  assumes "length cs = length es" and "length ss = length es"
  shows "map rfm_row.Cliente (clustered_rows es cs ss) = map rfm_row.Cliente es"
    and "map rfm_row.Recencia (clustered_rows es cs ss) = map rfm_row.Recencia es"
    and "map rfm_row.Frequencia (clustered_rows es cs ss) = map rfm_row.Frequencia es"
    and "map rfm_row.Receita (clustered_rows es cs ss) = map rfm_row.Receita es"
    and "map clustered_row.ClusterId (clustered_rows es cs ss) = cs"
    and "map clustered_row.ScoreComposto (clustered_rows es cs ss) = ss"
  using assms
  by (auto simp: clustered_rows_def list_eq_iff_nth_eq)

lemma add_features_columns:
  "rfm_row.Cliente (add_features r) = rfm_row.Cliente r"
  "rfm_row.Recencia (add_features r) = rfm_row.Recencia r"
  "rfm_row.Frequencia (add_features r) = rfm_row.Frequencia r"
  "rfm_row.Receita (add_features r) = rfm_row.Receita r"
  by (simp_all add: add_features_def)

text \<open>What a successful run returns, column by column.\<close>

lemma joint_success:
  assumes "cluster_rfm_joint sc km rfm k seed = Inr (out, prof)"
  shows "\<exists>Xs cluster_id P.
           sc (map (\<lambda>r. [- rfm_row.Recencia r, log1p (rfm_row.Frequencia r),
                            log1p (rfm_row.Receita r)]) (rows rfm)) = Inr Xs
         \<and> km k seed Xs = Inr cluster_id
         \<and> length cluster_id = length (rows rfm)
         \<and> length Xs = length (rows rfm)
         \<and> columns out = [''Cliente'', ''Recencia'', ''Frequencia'', ''Receita'',
                            ''ClusterId'', ''RankQualidade'', ''ScoreComposto'']
         \<and> length (rows out) = length (rows rfm)
         \<and> map customer_row.Cliente (rows out) = map rfm_row.Cliente (rows rfm)
         \<and> map customer_row.Recencia (rows out) = map rfm_row.Recencia (rows rfm)
         \<and> map customer_row.Frequencia (rows out) = map rfm_row.Frequencia (rows rfm)
         \<and> map customer_row.Receita (rows out) = map rfm_row.Receita (rows rfm)
         \<and> map customer_row.ClusterId (rows out) = cluster_id
         \<and> map customer_row.ScoreComposto (rows out) = map sum_list Xs
         \<and> map customer_row.RankQualidade (rows out)
              = map (map_of (map (\<lambda>p. (agg_row.ClusterId p, prof_row.RankQualidade p)) P))
                  cluster_id
         \<and> rows prof = display_loop profile_columns P
         \<and> sorted (map ScoreComposto_medio P)
         \<and> map prof_row.RankQualidade P = map int [0..<length P]
         \<and> distinct (map agg_row.ClusterId P)
         \<and> set (map agg_row.ClusterId P) = set cluster_id
         \<and> sum_list (map Clientes P) = length (rows out)
         \<and> (\<forall>p \<in> set P.
               Clientes p = length (filter (\<lambda>r. customer_row.ClusterId r = agg_row.ClusterId p)
                                     (rows out))
             \<and> ScoreComposto_medio p = cluster_mean_score (rows out) (agg_row.ClusterId p)
             \<and> PctBase p = np_round (real (Clientes p) / real (length (rows out))) 4)"
proof -
  from cluster_rfm_joint_Inr[OF assms] obtain Xs cluster_id where
    sc: "sc (map (\<lambda>r. [- rfm_row.Recencia r, log1p (rfm_row.Frequencia r),
                            log1p (rfm_row.Receita r)]) (rows rfm)) = Inr Xs"
    and km: "km k seed Xs = Inr cluster_id"
    and l1: "length cluster_id = length (rows rfm)"
    and l2: "length Xs = length (rows rfm)"
    and out: "out = \<lparr>columns = [''Cliente'', ''Recencia'', ''Frequencia'', ''Receita'',
                               ''ClusterId'', ''RankQualidade'', ''ScoreComposto''],
                    rows = customer_rows (merge_left
                      (clustered_rows (map add_features (rows rfm)) cluster_id (map sum_list Xs))
                      (map (\<lambda>p. (agg_row.ClusterId p, prof_row.RankQualidade p))
                        (profile_rows (clustered_rows (map add_features (rows rfm))
                           cluster_id (map sum_list Xs)))))\<rparr>"
    and prof: "prof = \<lparr>columns = profile_columns,
                     rows = display_loop profile_columns
                       (profile_rows (clustered_rows (map add_features (rows rfm))
                           cluster_id (map sum_list Xs)))\<rparr>"
    by blast
  define E where "E = clustered_rows (map add_features (rows rfm)) cluster_id (map sum_list Xs)"
  define P where "P = profile_rows E"
  define R where "R = map (\<lambda>p. (agg_row.ClusterId p, prof_row.RankQualidade p)) P"
  have la: "length cluster_id = length (map add_features (rows rfm))"
    and lb: "length (map sum_list Xs) = length (map add_features (rows rfm))"
    using l1 l2 by simp_all
  note Ecols = clustered_rows_columns[OF la lb, folded E_def]
  have lenE: "length E = length (rows rfm)"
    using clustered_rows_length[OF la lb] by (simp add: E_def)
  have fstR: "map fst R = map agg_row.ClusterId P" by (simp add: R_def comp_def)
  have dR: "distinct (map fst R)" by (simp add: fstR P_def profile_rows_distinct)
  have kset: "set (map agg_row.ClusterId P) = clustered_row.ClusterId ` set E"
    by (simp only: P_def profile_rows_key_set)
  have sub: "clustered_row.ClusterId ` set E \<subseteq> fst ` set R"
    using kset fstR by (metis set_map subset_refl)
  have rows_out: "rows out = customer_rows (merge_left E R)"
    by (simp add: out E_def P_def R_def)
  note C = customer_rows_merge_left_columns[OF dR sub, folded rows_out]
  note G = customer_rows_merge_left_groups[OF dR sub, folded rows_out]
  have len_out: "length (rows out) = length (rows rfm)" using C(1) lenE by simp
  have c1: "map customer_row.Cliente (rows out) = map rfm_row.Cliente (rows rfm)"
    using C(2) Ecols(1) by (simp add: add_features_columns)
  have c2: "map customer_row.Recencia (rows out) = map rfm_row.Recencia (rows rfm)"
    using C(3) Ecols(2) by (simp add: add_features_columns)
  have c3: "map customer_row.Frequencia (rows out) = map rfm_row.Frequencia (rows rfm)"
    using C(4) Ecols(3) by (simp add: add_features_columns)
  have c4: "map customer_row.Receita (rows out) = map rfm_row.Receita (rows rfm)"
    using C(5) Ecols(4) by (simp add: add_features_columns)
  have c5: "map customer_row.ClusterId (rows out) = cluster_id"
    using C(6) Ecols(5) by simp
  have c6: "map customer_row.ScoreComposto (rows out) = map sum_list Xs"
    using C(7) Ecols(6) by simp
  have "map (\<lambda>r. map_of R (clustered_row.ClusterId r)) E
          = map (map_of R) (map clustered_row.ClusterId E)" by (simp add: comp_def)
  then have c7: "map customer_row.RankQualidade (rows out) = map (map_of R) cluster_id"
    using C(8) Ecols(5) by simp
  have p1: "rows prof = display_loop profile_columns P" by (simp add: prof P_def E_def)
  have p2: "sorted (map ScoreComposto_medio P)" by (simp add: P_def profile_rows_sorted)
  have p3: "map prof_row.RankQualidade P = map int [0..<length P]"
    by (simp add: P_def profile_rows_rank)
  have p4: "distinct (map agg_row.ClusterId P)" by (simp add: P_def profile_rows_distinct)
  have p5: "set (map agg_row.ClusterId P) = set cluster_id"
    using kset Ecols(5) by (metis set_map)
  have p6: "sum_list (map Clientes P) = length (rows out)"
    using len_out lenE by (simp add: P_def profile_rows_total)
  have p7: "\<forall>p \<in> set P.
               Clientes p = length (filter (\<lambda>r. customer_row.ClusterId r = agg_row.ClusterId p)
                                     (rows out))
             \<and> ScoreComposto_medio p = cluster_mean_score (rows out) (agg_row.ClusterId p)
             \<and> PctBase p = np_round (real (Clientes p) / real (length (rows out))) 4"
  proof
    fix p assume p: "p \<in> set P"
    then have pr: "p \<in> set (profile_rows E)" by (simp add: P_def)
    have g: "map customer_row.ScoreComposto
               (filter (\<lambda>r. customer_row.ClusterId r = agg_row.ClusterId p) (rows out))
             = map clustered_row.ScoreComposto
                 (filter (\<lambda>r. clustered_row.ClusterId r = agg_row.ClusterId p) E)"
      by (rule G)
    have "length (filter (\<lambda>r. customer_row.ClusterId r = agg_row.ClusterId p) (rows out))
            = length (filter (\<lambda>r. clustered_row.ClusterId r = agg_row.ClusterId p) E)"
      using arg_cong[OF g, of length] by simp
    then have a: "Clientes p
        = length (filter (\<lambda>r. customer_row.ClusterId r = agg_row.ClusterId p) (rows out))"
      using profile_rows_row(1)[OF pr] by simp
    have b: "ScoreComposto_medio p = cluster_mean_score (rows out) (agg_row.ClusterId p)"
      using profile_rows_row(2)[OF pr] g by (simp add: cluster_mean_score_def)
    have "map PctBase P = map (\<lambda>r. np_round (real (Clientes r) / real (length E)) 4) P"
      by (simp only: P_def profile_rows_pct[symmetric])
    then have "PctBase p = np_round (real (Clientes p) / real (length E)) 4"
      using p by (simp add: map_eq_conv)
    then have c: "PctBase p = np_round (real (Clientes p) / real (length (rows out))) 4"
      using len_out lenE by simp
    from a b c show "Clientes p = length (filter (\<lambda>r. customer_row.ClusterId r = agg_row.ClusterId p)
                                     (rows out))
             \<and> ScoreComposto_medio p = cluster_mean_score (rows out) (agg_row.ClusterId p)
             \<and> PctBase p = np_round (real (Clientes p) / real (length (rows out))) 4"
      by blast
  qed
  have cols: "columns out = [''Cliente'', ''Recencia'', ''Frequencia'', ''Receita'',
                            ''ClusterId'', ''RankQualidade'', ''ScoreComposto'']"
    by (simp add: out)
  show ?thesis
    apply (rule exI[of _ Xs], rule exI[of _ cluster_id], rule exI[of _ P])
    using sc km l1 l2 cols len_out c1 c2 c3 c4 c5 c6 c7[unfolded R_def] p1 p2 p3 p4 p5 p6 p7
    by blast
qed




subsection \<open>The concrete run\<close>

lemma demo_run:
  "cluster_rfm_joint stub_scaler stub_kmeans demo_rfm 2 42 = Inr (demo_out, demo_prof)"
  by (simp add: cluster_rfm_joint_def build_rfm_features_def stub_scaler_def stub_kmeans_def
        demo_rfm_def demo_out_def demo_prof_def
        Let_def set_column_def add_features_def log1p_def clustered_rows_def profile_rows_def
        groupby_agg_def mean_def median_def merge_left_def merge_columns_def customer_rows_def
        profile_columns_def display_rounded_def endswith_def round_column_def np_round_def
        rint_def upt_rec)

lemma stub_contract: "sklearn_contract stub_scaler stub_kmeans"
  by (auto simp: sklearn_contract_def stub_scaler_def stub_kmeans_def split: if_splits)


section \<open>Properties of the knee selector\<close>



text \<open>
  C2. With \<open>k_min = k_max\<close> and a single value the chord has length zero, the
  denominator is \<open>0\<close> and the division of the first iteration raises
  \<^verbatim>\<open>ZeroDivisionError\<close>: the selector does not return \<open>k_min\<close>.
\<close>

theorem knee_single_point_raises:
  "get_numero_otimo_clusters [w] 5 5 = Inl ZeroDivisionError
   \<and> get_numero_otimo_clusters [w] k k = Inl ZeroDivisionError"
  by (simp add: get_numero_otimo_clusters_def Let_def)




text \<open>
  C10. For a curve with \<open>k_min < k_max\<close> and one value per candidate, the selector
  returns, and the integer it returns lies in \<open>[k_min, k_max]\<close>.
\<close>

theorem knee_result_in_range:
  assumes "k_min < k_max" and "int (length wcss) = k_max - k_min + 1"
  shows "\<exists>k. get_numero_otimo_clusters wcss k_min k_max = Inr k \<and> k_min \<le> k \<and> k \<le> k_max"
proof -
  have ne: "wcss \<noteq> []" using assms by auto
  from knee_returns[OF ne, of k_min k_max] assms(1)
  obtain i where res: "get_numero_otimo_clusters wcss k_min k_max = Inr (k_min + int i)"
    and il: "i < length wcss" by auto
  have "k_min \<le> k_min + int i" "k_min + int i \<le> k_max" using il assms by auto
  with res show ?thesis by blast
qed

theorem knee_result_in_range_witness:
  "(2::int) < 10 \<and> int (length [50, 30, 20, 15, 12, 10, 9, 8, 7::real]) = 10 - 2 + 1
   \<and> (\<exists>k. get_numero_otimo_clusters [50, 30, 20, 15, 12, 10, 9, 8, 7] 2 10 = Inr k
           \<and> 2 \<le> k \<and> k \<le> 10)"
proof -
  have h1: "(2::int) < 10" by simp
  have h2: "int (length [50, 30, 20, 15, 12, 10, 9, 8, 7::real]) = 10 - 2 + 1" by simp
  from knee_result_in_range[OF h1 h2] h1 h2 show ?thesis by blast
qed

section \<open>Properties of the joint clusterer\<close>



text \<open>
  C4. The per-customer table of a successful run has exactly the columns
  \<^verbatim>\<open>Cliente\<close>, \<^verbatim>\<open>Recencia\<close>, \<^verbatim>\<open>Frequencia\<close>, \<^verbatim>\<open>Receita\<close>, \<^verbatim>\<open>ClusterId\<close>,
  \<^verbatim>\<open>RankQualidade\<close>, \<^verbatim>\<open>ScoreComposto\<close>, in this order, whatever further columns the
  input table carried; the feature columns \<^verbatim>\<open>R_inv\<close>, \<^verbatim>\<open>F_log\<close>, \<^verbatim>\<open>M_log\<close> are not
  among them.
\<close>

theorem customer_table_columns:
  assumes "cluster_rfm_joint sc km rfm k seed = Inr (out, prof)"
  shows "columns out = [''Cliente'', ''Recencia'', ''Frequencia'', ''Receita'',
                        ''ClusterId'', ''RankQualidade'', ''ScoreComposto'']
       \<and> ''R_inv'' \<notin> set (columns out)
       \<and> ''F_log'' \<notin> set (columns out)
       \<and> ''M_log'' \<notin> set (columns out)"
proof -
  from joint_success[OF assms]
  have "columns out = [''Cliente'', ''Recencia'', ''Frequencia'', ''Receita'',
                        ''ClusterId'', ''RankQualidade'', ''ScoreComposto'']" by blast
  then show ?thesis by simp
qed

theorem customer_table_columns_witness:
  "cluster_rfm_joint stub_scaler stub_kmeans demo_rfm 2 42 = Inr (demo_out, demo_prof)
   \<and> columns demo_out = [''Cliente'', ''Recencia'', ''Frequencia'', ''Receita'',
                          ''ClusterId'', ''RankQualidade'', ''ScoreComposto'']
   \<and> ''R_inv'' \<notin> set (columns demo_out)
   \<and> ''F_log'' \<notin> set (columns demo_out)
   \<and> ''M_log'' \<notin> set (columns demo_out)"
  using customer_table_columns[OF demo_run] demo_run by blast

text \<open>
  C5. In a successful run the returned table has one row per row of the RFM table, in
  the same order, and \<^verbatim>\<open>ScoreComposto\<close> of row \<open>i\<close> is the sum of row \<open>i\<close> of the
  standardised matrix, that is, of the scaler's result on the rows
  \<open>[-Recencia, log1p Frequencia, log1p Receita]\<close>; with a scaler that keeps the shape of its
  argument these are three values. The labels of the clustering do not enter: any other
  successful clustering of the same table, with whatever \<^verbatim>\<open>KMeans\<close>, number of clusters
  and seed, gives the same scores.
\<close>

theorem score_is_sum_of_standardized_features:
  assumes "cluster_rfm_joint sc km rfm k seed = Inr (out, prof)"
  shows "length (rows out) = length (rows rfm)
       \<and> (\<exists>Xs. sc (map (\<lambda>r. [- rfm_row.Recencia r, log1p (rfm_row.Frequencia r),
                                 log1p (rfm_row.Receita r)]) (rows rfm)) = Inr Xs
              \<and> (\<forall>i < length (rows rfm).
                    customer_row.Cliente (rows out ! i) = rfm_row.Cliente (rows rfm ! i)
                  \<and> customer_row.ScoreComposto (rows out ! i) = sum_list (Xs ! i)
                  \<and> (sklearn_contract sc km \<longrightarrow>
                        (\<exists>z1 z2 z3. Xs ! i = [z1, z2, z3]
                           \<and> customer_row.ScoreComposto (rows out ! i) = z1 + z2 + z3))))
       \<and> (\<forall>km' k' seed' out' prof'.
             cluster_rfm_joint sc km' rfm k' seed' = Inr (out', prof') \<longrightarrow>
             map customer_row.ScoreComposto (rows out')
               = map customer_row.ScoreComposto (rows out))"
proof -
  let ?X = "map (\<lambda>r. [- rfm_row.Recencia r, log1p (rfm_row.Frequencia r),
                        log1p (rfm_row.Receita r)]) (rows rfm)"
  from joint_success[OF assms] obtain Xs where
    sc: "sc ?X = Inr Xs"
    and l2: "length Xs = length (rows rfm)"
    and len: "length (rows out) = length (rows rfm)"
    and c1: "map customer_row.Cliente (rows out) = map rfm_row.Cliente (rows rfm)"
    and c6: "map customer_row.ScoreComposto (rows out) = map sum_list Xs"
    by blast
  have row: "customer_row.Cliente (rows out ! i) = rfm_row.Cliente (rows rfm ! i)
           \<and> customer_row.ScoreComposto (rows out ! i) = sum_list (Xs ! i)
           \<and> (sklearn_contract sc km \<longrightarrow>
                 (\<exists>z1 z2 z3. Xs ! i = [z1, z2, z3]
                    \<and> customer_row.ScoreComposto (rows out ! i) = z1 + z2 + z3))"
    if i: "i < length (rows rfm)" for i
  proof -
    have a: "customer_row.Cliente (rows out ! i) = rfm_row.Cliente (rows rfm ! i)"
      using arg_cong[OF c1, of "\<lambda>xs. xs ! i"] i len by simp
    have b: "customer_row.ScoreComposto (rows out ! i) = sum_list (Xs ! i)"
      using arg_cong[OF c6, of "\<lambda>xs. xs ! i"] i len l2 by simp
    have c: "\<exists>z1 z2 z3. Xs ! i = [z1, z2, z3]
                    \<and> customer_row.ScoreComposto (rows out ! i) = z1 + z2 + z3"
      if ctr: "sklearn_contract sc km"
    proof -
      from ctr sc have "\<forall>j < length ?X. length (Xs ! j) = length (?X ! j)"
        unfolding sklearn_contract_def by blast
      then have "length (Xs ! i) = 3" using i by simp
      then obtain z1 z2 z3 where z: "Xs ! i = [z1, z2, z3]"
        by (auto simp: length_Suc_conv numeral_3_eq_3)
      with b show ?thesis by simp
    qed
    from a b c show ?thesis by blast
  qed
  have indep: "map customer_row.ScoreComposto (rows out')
                 = map customer_row.ScoreComposto (rows out)"
    if other: "cluster_rfm_joint sc km' rfm k' seed' = Inr (out', prof')"
    for km' k' seed' out' prof'
  proof -
    from joint_success[OF other] obtain Xs' where
      sc': "sc ?X = Inr Xs'"
      and c6': "map customer_row.ScoreComposto (rows out') = map sum_list Xs'"
      by blast
    from sc sc' have "Xs' = Xs" by simp
    with c6 c6' show ?thesis by simp
  qed
  from len sc row indep show ?thesis by blast
qed

theorem score_is_sum_of_standardized_features_witness:
  "cluster_rfm_joint stub_scaler stub_kmeans demo_rfm 2 42 = Inr (demo_out, demo_prof)
   \<and> sklearn_contract stub_scaler stub_kmeans
   \<and> length (rows demo_out) = length (rows demo_rfm)
   \<and> stub_scaler (map (\<lambda>r. [- rfm_row.Recencia r, log1p (rfm_row.Frequencia r),
                               log1p (rfm_row.Receita r)]) (rows demo_rfm))
        = Inr [[- 1, 0, 0], [- 5, 0, 0], [- 30, 0, 0]]
   \<and> customer_row.ScoreComposto (rows demo_out ! 2) = sum_list [- 30, 0, 0]"
proof -
  note t = score_is_sum_of_standardized_features[OF demo_run]
  have sc: "stub_scaler (map (\<lambda>r. [- rfm_row.Recencia r, log1p (rfm_row.Frequencia r),
                               log1p (rfm_row.Receita r)]) (rows demo_rfm))
        = Inr [[- 1, 0, 0], [- 5, 0, 0], [- 30, 0, 0]]"
    by (simp add: stub_scaler_def demo_rfm_def log1p_def)
  have i: "(2::nat) < length (rows demo_rfm)" by (simp add: demo_rfm_def)
  from t obtain Xs where
    x: "stub_scaler (map (\<lambda>r. [- rfm_row.Recencia r, log1p (rfm_row.Frequencia r),
                               log1p (rfm_row.Receita r)]) (rows demo_rfm)) = Inr Xs"
    and s: "\<forall>i < length (rows demo_rfm).
              customer_row.ScoreComposto (rows demo_out ! i) = sum_list (Xs ! i)"
    by blast
  from x sc have "Xs = [[- 1, 0, 0], [- 5, 0, 0], [- 30, 0, 0]]" by simp
  with s i have "customer_row.ScoreComposto (rows demo_out ! 2) = sum_list [- 30, 0, 0]"
    by auto
  with t demo_run stub_contract sc show ?thesis by blast
qed





end
